theory Spec2Isabelle
  imports Complex_Main "HOL-Library.Word" "HOL-Library.Signed_Division"
begin

unbundle bit_operations_syntax

section \<open>Go's \<open>int\<close>: 64-bit two's complement\<close>

text \<open>
  The source computes positions and strides with Go's \<open>int\<close>, which is 64 bits wide on
  every platform the \<open>image\<close> package supports. Values are modelled as \<open>int\<close>, and every
  addition and subtraction of the source is followed by \<open>wrap\<close>, the reduction to the
  two's-complement range.
\<close>

definition wrap :: "int \<Rightarrow> int" where
  "wrap i = (i + 2 ^ 63) mod 2 ^ 64 - 2 ^ 63"

definition go_add :: "int \<Rightarrow> int \<Rightarrow> int" where
  "go_add a b = wrap (a + b)"

definition go_sub :: "int \<Rightarrow> int \<Rightarrow> int" where
  "go_sub a b = wrap (a - b)"

text \<open>Go's \<open>/\<close> on integers truncates towards zero (\<open>sdiv\<close>), unlike HOL's \<open>div\<close>.\<close>

definition go_quo :: "int \<Rightarrow> int \<Rightarrow> int" where
  "go_quo a b = wrap (a sdiv b)"

definition is_int64 :: "int \<Rightarrow> bool" where
  "is_int64 i = (- (2 ^ 63) \<le> i \<and> i < 2 ^ 63)"

section \<open>Go's \<open>float64\<close>: IEEE 754 binary64, round to nearest even\<close>

text \<open>
  A \<open>float64\<close> is a finite value (a real number, in fact a dyadic rational), an
  infinity or a NaN. The two zeros are
  identified: the source never divides by a computed value, so the sign of a zero is
  not observable. Each arithmetic operation computes the exact result and rounds it
  with \<open>round_f64\<close>: 53 bits of precision, exponents from -1022 (below which the
  spacing stays at 2^-1074) and overflow to infinity from 2^1024 - 2^970 on.
\<close>

datatype float64 = Finite real | PosInf | NegInf | NaN

fun ilog2 :: "nat \<Rightarrow> nat" where
  "ilog2 n = (if n < 2 then 0 else Suc (ilog2 (n div 2)))"

definition pow2 :: "int \<Rightarrow> real" where
  "pow2 e = (if 0 \<le> e then 2 ^ nat e else 1 / 2 ^ nat (- e))"

text \<open>\<open>exponent x\<close> is the \<open>e\<close> with \<open>2^e \<le> x < 2^(e+1)\<close>, for \<open>x > 0\<close>.\<close>

definition exponent :: "real \<Rightarrow> int" where
  "exponent x =
     (if 1 \<le> x then int (ilog2 (nat \<lfloor>x\<rfloor>))
      else let c = nat \<lceil>1 / x\<rceil> in
           - int (if c \<le> 1 then 0 else Suc (ilog2 (c - 1))))"

definition round_half_even :: "real \<Rightarrow> int" where
  "round_half_even q =
     (let f = \<lfloor>q\<rfloor>; d = q - of_int f in
      if d < 1 / 2 then f
      else if 1 / 2 < d then f + 1
      else if even f then f else f + 1)"

definition nearest :: "real \<Rightarrow> real" where
  "nearest x =
     (if x = 0 then 0
      else let ulp = pow2 (max (exponent \<bar>x\<bar>) (- 1022) - 52)
           in sgn x * of_int (round_half_even (\<bar>x\<bar> / ulp)) * ulp)"

definition round_f64 :: "real \<Rightarrow> float64" where
  "round_f64 x =
     (if 2 ^ 1024 - 2 ^ 970 \<le> \<bar>x\<bar> then (if 0 < x then PosInf else NegInf)
      else Finite (nearest x))"

fun fneg :: "float64 \<Rightarrow> float64" where
  "fneg (Finite a) = Finite (- a)"
| "fneg PosInf = NegInf"
| "fneg NegInf = PosInf"
| "fneg NaN = NaN"

fun fadd :: "float64 \<Rightarrow> float64 \<Rightarrow> float64" where
  "fadd (Finite a) (Finite b) = round_f64 (a + b)"
| "fadd NaN _ = NaN"
| "fadd _ NaN = NaN"
| "fadd PosInf NegInf = NaN"
| "fadd NegInf PosInf = NaN"
| "fadd PosInf _ = PosInf"
| "fadd NegInf _ = NegInf"
| "fadd _ PosInf = PosInf"
| "fadd _ NegInf = NegInf"

definition fsub :: "float64 \<Rightarrow> float64 \<Rightarrow> float64" where
  "fsub a b = fadd a (fneg b)"

text \<open>The sign of a float as -1, 0 or 1 (NaN has none and is handled before).\<close>

fun fsgn :: "float64 \<Rightarrow> real" where
  "fsgn (Finite a) = sgn a"
| "fsgn PosInf = 1"
| "fsgn NegInf = - 1"
| "fsgn NaN = 0"

definition signed_inf :: "real \<Rightarrow> float64" where
  "signed_inf s = (if s = 0 then NaN else if 0 < s then PosInf else NegInf)"

fun fmul :: "float64 \<Rightarrow> float64 \<Rightarrow> float64" where
  "fmul (Finite a) (Finite b) = round_f64 (a * b)"
| "fmul NaN _ = NaN"
| "fmul _ NaN = NaN"
| "fmul a b = signed_inf (fsgn a * fsgn b)"

text \<open>
  Division. A finite dividend over an infinity is zero; a division by zero gives NaN
  for \<open>0/0\<close> and an infinity otherwise (of the dividend's sign: the zero is taken as
  positive). The source divides by the constant 65535.0 only.
\<close>

fun fdiv :: "float64 \<Rightarrow> float64 \<Rightarrow> float64" where
  "fdiv (Finite a) (Finite b) = (if b = 0 then signed_inf (sgn a) else round_f64 (a / b))"
| "fdiv NaN _ = NaN"
| "fdiv _ NaN = NaN"
| "fdiv (Finite a) _ = Finite 0"
| "fdiv a (Finite b) = signed_inf (fsgn a * (if b < 0 then - 1 else 1))"
| "fdiv _ _ = NaN"

text \<open>Comparisons: every comparison with a NaN is false.\<close>

fun fle :: "float64 \<Rightarrow> float64 \<Rightarrow> bool" where
  "fle NaN _ = False"
| "fle _ NaN = False"
| "fle (Finite a) (Finite b) = (a \<le> b)"
| "fle NegInf _ = True"
| "fle _ PosInf = True"
| "fle _ _ = False"

definition fgt :: "float64 \<Rightarrow> float64 \<Rightarrow> bool" where
  "fgt a b = (fle b a \<and> \<not> fle a b)"

text \<open>\<open>float64(u)\<close> of a \<open>uint32\<close> is exact: every such value has fewer than 53 bits.\<close>

definition float64_of_uint32 :: "32 word \<Rightarrow> float64" where
  "float64_of_uint32 u = Finite (of_nat (unat u))"

text \<open>
  \<open>uint8(f)\<close>: the fraction is discarded (truncation towards zero). When the truncated
  value is not in 0..255, or \<open>f\<close> is not finite, the Go specification leaves the result
  to the implementation: that result is the parameter \<open>impl\<close>.
\<close>

definition trunc_zero :: "real \<Rightarrow> int" where
  "trunc_zero x = (if 0 \<le> x then \<lfloor>x\<rfloor> else \<lceil>x\<rceil>)"

definition uint8_of_float64 :: "(float64 \<Rightarrow> 8 word) \<Rightarrow> float64 \<Rightarrow> 8 word" where
  "uint8_of_float64 impl f =
     (case f of
        Finite x \<Rightarrow> if 0 \<le> trunc_zero x \<and> trunc_zero x \<le> 255 then word_of_int (trunc_zero x) else impl f
      | _ \<Rightarrow> impl f)"

section \<open>Colours (package \<open>image/color\<close>)\<close>

text \<open>
  A \<open>color.Color\<close> is any value with a method \<open>RGBA()\<close> that returns four
  alpha-premultiplied channels on the scale 0..65535, as \<open>uint32\<close>. Three
  implementations are modelled: \<open>color.RGBA\<close> (8 bits a channel, the colour of an
  \<open>*image.RGBA\<close>), \<open>color.RGBA64\<close> (16 bits a channel: it holds whatever a well-formed
  \<open>RGBA()\<close> can return) and \<open>color.NRGBA\<close> (8 bits, not premultiplied: a decoded PNG
  with transparency).
\<close>

datatype color =
    RGBA "8 word" "8 word" "8 word" "8 word"
  | RGBA64 "16 word" "16 word" "16 word" "16 word"
  | NRGBA "8 word" "8 word" "8 word" "8 word"

text \<open>\<open>r = uint32(c.R); r |= r << 8\<close>\<close>

definition widen8 :: "8 word \<Rightarrow> 32 word" where
  "widen8 c = (let r = ucast c in r OR push_bit 8 r)"

text \<open>\<open>r = uint32(c.R); r |= r << 8; r *= uint32(c.A); r /= 0xff\<close>\<close>

definition premul8 :: "8 word \<Rightarrow> 8 word \<Rightarrow> 32 word" where
  "premul8 c a = (widen8 c * ucast a) div 0xff"

fun RGBA_of :: "color \<Rightarrow> 32 word \<times> 32 word \<times> 32 word \<times> 32 word" where
  "RGBA_of (RGBA r g b a) = (widen8 r, widen8 g, widen8 b, widen8 a)"
| "RGBA_of (RGBA64 r g b a) = (ucast r, ucast g, ucast b, ucast a)"
| "RGBA_of (NRGBA r g b a) = (premul8 r a, premul8 g a, premul8 b a, widen8 a)"

text \<open>
  \<open>color.RGBAModel.Convert(c).(color.RGBA)\<close>: an RGBA colour is returned as it is, any
  other colour is reduced to the high byte of each channel. The result is given as the
  four bytes of the \<open>color.RGBA\<close>.
\<close>

type_synonym pixel = "8 word \<times> 8 word \<times> 8 word \<times> 8 word"

definition rgbaModel :: "color \<Rightarrow> pixel" where
  "rgbaModel c =
     (case c of
        RGBA r g b a \<Rightarrow> (r, g, b, a)
      | _ \<Rightarrow> (case RGBA_of c of (r, g, b, a) \<Rightarrow>
               (ucast (drop_bit 8 r), ucast (drop_bit 8 g), ucast (drop_bit 8 b), ucast (drop_bit 8 a))))"

section \<open>The compositor\<close>

text \<open>
  \<open>blendColors\<close> of the source. \<open>x >> 8\<close> on a \<open>uint32\<close> is \<open>drop_bit 8\<close>; \<open>uint8(ba >> 8)\<close>
  keeps the low byte (\<open>ucast\<close>). Each floating-point operation is rounded on its own
  (no fused multiply-add).
\<close>

definition blendChannel :: "(float64 \<Rightarrow> 8 word) \<Rightarrow> float64 \<Rightarrow> 32 word \<Rightarrow> 32 word \<Rightarrow> 8 word" where
  "blendChannel impl overlayAlpha b ov =
     uint8_of_float64 impl
       (fadd (fmul (float64_of_uint32 (drop_bit 8 b)) (fsub (Finite 1) overlayAlpha))
             (fmul (float64_of_uint32 (drop_bit 8 ov)) overlayAlpha))"

definition blendColors :: "(float64 \<Rightarrow> 8 word) \<Rightarrow> color \<Rightarrow> color \<Rightarrow> float64 \<Rightarrow> color" where
  "blendColors impl base overlay opacity =
     (case RGBA_of base of (br, bg, bb, ba) \<Rightarrow>
      case RGBA_of overlay of (or', og, ob, oa) \<Rightarrow>
        if oa = 0 then base
        else
          let overlayAlpha = fmul (fdiv (float64_of_uint32 oa) (Finite 65535)) opacity;
              r = blendChannel impl overlayAlpha br or';
              g = blendChannel impl overlayAlpha bg og;
              b = blendChannel impl overlayAlpha bb ob
          in RGBA r g b (ucast (drop_bit 8 ba)))"

section \<open>Images (packages \<open>image\<close> and \<open>image/draw\<close>)\<close>

record Point =
  X :: int
  Y :: int

record Rectangle =
  MinPt :: Point
  MaxPt :: Point

definition Dx :: "Rectangle \<Rightarrow> int" where
  "Dx r = go_sub (X (MaxPt r)) (X (MinPt r))"

definition Dy :: "Rectangle \<Rightarrow> int" where
  "Dy r = go_sub (Y (MaxPt r)) (Y (MinPt r))"

text \<open>\<open>Point{x, y}.In(r)\<close>\<close>

definition In :: "int \<Rightarrow> int \<Rightarrow> Rectangle \<Rightarrow> bool" where
  "In x y r = (X (MinPt r) \<le> x \<and> x < X (MaxPt r) \<and> Y (MinPt r) \<le> y \<and> y < Y (MaxPt r))"

text \<open>
  An \<open>image.Image\<close>: its bounds and its method \<open>At\<close>, a colour for every coordinate.
\<close>

record Image =
  Bounds :: Rectangle
  At :: "int \<Rightarrow> int \<Rightarrow> color"

text \<open>
  An \<open>*image.RGBA\<close>: its rectangle and its pixel buffer, here a function from the
  coordinates to the four bytes of the pixel. \<open>RGBAAt\<close> and \<open>Set\<close> are the methods of the
  library: outside the rectangle a read gives the zero colour and a write does nothing.
\<close>

record RGBA_image =
  Rect :: Rectangle
  Pix :: "int \<times> int \<Rightarrow> pixel"

definition RGBAAt :: "RGBA_image \<Rightarrow> int \<Rightarrow> int \<Rightarrow> color" where
  "RGBAAt p x y =
     (if \<not> In x y (Rect p) then RGBA 0 0 0 0
      else case Pix p (x, y) of (r, g, b, a) \<Rightarrow> RGBA r g b a)"

definition Set :: "RGBA_image \<Rightarrow> int \<Rightarrow> int \<Rightarrow> color \<Rightarrow> RGBA_image" where
  "Set p x y c =
     (if \<not> In x y (Rect p) then p
      else p\<lparr>Pix := (Pix p)((x, y) := rgbaModel c)\<rparr>)"

datatype 'a outcome = Returns 'a | Panics string

text \<open>
  \<open>image.NewRGBA(r)\<close> panics when a side of \<open>r\<close> is negative or the buffer length
  \<open>4 * Dx * Dy\<close> does not fit an \<open>int\<close> (\<open>mul3NonNeg\<close> of the library returns -1);
  otherwise the new image has every byte zero.
\<close>

definition mul3NonNeg :: "int \<Rightarrow> int \<Rightarrow> int \<Rightarrow> int" where
  "mul3NonNeg x y z =
     (if x < 0 \<or> y < 0 \<or> z < 0 then - 1
      else if 2 ^ 64 \<le> x * y then - 1
      else if 2 ^ 64 \<le> x * y * z then - 1
      else if 2 ^ 63 \<le> x * y * z then - 1
      else x * y * z)"

definition NewRGBA :: "Rectangle \<Rightarrow> RGBA_image outcome" where
  "NewRGBA r =
     (if mul3NonNeg 4 (Dx r) (Dy r) < 0
      then Panics ''image: NewRGBA Rectangle has huge or negative dimensions''
      else Returns \<lparr>Rect = r, Pix = (\<lambda>_. (0, 0, 0, 0))\<rparr>)"

text \<open>
  \<open>draw.Draw(dst, r, src, sp, draw.Src)\<close> for an \<open>*image.RGBA\<close> destination whose
  rectangle is \<open>r\<close>, as both calls of the source have it: every pixel of \<open>r\<close> becomes the
  source's pixel at the same offset from \<open>sp\<close>, converted to \<open>color.RGBA\<close>.
\<close>

definition Draw :: "RGBA_image \<Rightarrow> Rectangle \<Rightarrow> Image \<Rightarrow> Point \<Rightarrow> RGBA_image" where
  "Draw dst r src sp =
     dst\<lparr>Pix := (\<lambda>(x, y).
        if In x y r \<and> In x y (Rect dst)
        then rgbaModel (At src (X sp + (x - X (MinPt r))) (Y sp + (y - Y (MinPt r))))
        else Pix dst (x, y))\<rparr>"

section \<open>Placement and the single-placement renderer\<close>

text \<open>
  \<open>Position\<close> is an \<open>int\<close> type in the source: the five named values, and
  \<open>OtherPosition\<close> for every other value, which no case of the \<open>switch\<close> matches.
\<close>

datatype Position = Center | TopLeft | TopRight | BottomLeft | BottomRight | OtherPosition int

record Options =
  Position :: Position
  Opacity :: float64
  PaddingX :: int
  PaddingY :: int


text \<open>
  The \<open>switch\<close> of \<open>Apply\<close> that computes \<open>x, y\<close> (declared by \<open>var x, y int\<close>, hence zero
  when no case matches).
\<close>

fun placement :: "Position \<Rightarrow> Rectangle \<Rightarrow> Rectangle \<Rightarrow> int \<Rightarrow> int \<Rightarrow> int \<times> int" where
  "placement Center srcBounds wmBounds px py =
     (go_quo (go_sub (Dx srcBounds) (Dx wmBounds)) 2, go_quo (go_sub (Dy srcBounds) (Dy wmBounds)) 2)"
| "placement TopLeft srcBounds wmBounds px py = (px, py)"
| "placement TopRight srcBounds wmBounds px py =
     (go_sub (go_sub (Dx srcBounds) (Dx wmBounds)) px, py)"
| "placement BottomLeft srcBounds wmBounds px py =
     (px, go_sub (go_sub (Dy srcBounds) (Dy wmBounds)) py)"
| "placement BottomRight srcBounds wmBounds px py =
     (go_sub (go_sub (Dx srcBounds) (Dx wmBounds)) px, go_sub (go_sub (Dy srcBounds) (Dy wmBounds)) py)"
| "placement (OtherPosition n) srcBounds wmBounds px py = (0, 0)"

text \<open>The two \<open>if\<close>s of \<open>Apply\<close> on \<open>opts.Opacity\<close>.\<close>

definition normOpacity :: "float64 \<Rightarrow> float64" where
  "normOpacity opacity =
     (let o1 = (if fle opacity (Finite 0) then Finite (1 / 2) else opacity)
      in if fgt o1 (Finite 1) then Finite 1 else o1)"

text \<open>The body of the inner loop of \<open>Apply\<close>, at overlay coordinate \<open>(wx, wy)\<close>.\<close>

definition Apply_pixel ::
  "(float64 \<Rightarrow> 8 word) \<Rightarrow> Rectangle \<Rightarrow> Image \<Rightarrow> float64 \<Rightarrow> int \<Rightarrow> int \<Rightarrow> nat \<Rightarrow> nat \<Rightarrow> RGBA_image \<Rightarrow> RGBA_image" where
  "Apply_pixel impl srcBounds watermark opacity x y wy wx dst =
     (let wmBounds = Bounds watermark;
          dx = go_add x (int wx);
          dy = go_add y (int wy)
      in if dx < 0 \<or> Dx srcBounds \<le> dx \<or> dy < 0 \<or> Dy srcBounds \<le> dy then dst
         else
           let srcColor = RGBAAt dst dx dy;
               wmColor = At watermark (go_add (X (MinPt wmBounds)) (int wx)) (go_add (Y (MinPt wmBounds)) (int wy));
               blended = blendColors impl srcColor wmColor opacity
           in Set dst dx dy blended)"

text \<open>
  \<open>Apply\<close>. The loops \<open>for wy := 0; wy < wmBounds.Dy(); wy++\<close> and
  \<open>for wx := 0; wx < wmBounds.Dx(); wx++\<close> run over \<open>[0..<nat (Dy wmBounds)]\<close> and
  \<open>[0..<nat (Dx wmBounds)]\<close> (empty when the side is not positive).
\<close>

definition Apply :: "(float64 \<Rightarrow> 8 word) \<Rightarrow> Image \<Rightarrow> Image \<Rightarrow> Options \<Rightarrow> RGBA_image outcome" where
  "Apply impl src watermark opts =
     (let srcBounds = Bounds src;
          wmBounds = Bounds watermark
      in case NewRGBA srcBounds of
           Panics msg \<Rightarrow> Panics msg
         | Returns dst0 \<Rightarrow>
             let dst = Draw dst0 srcBounds src (MinPt srcBounds);
                 (x, y) = placement (Position opts) srcBounds wmBounds (PaddingX opts) (PaddingY opts);
                 opacity = normOpacity (Opacity opts)
             in Returns
                  (fold (\<lambda>wy. fold (Apply_pixel impl srcBounds watermark opacity x y wy)
                                 [0..<nat (Dx wmBounds)])
                        [0..<nat (Dy wmBounds)] dst))"

section \<open>The tiling renderer\<close>

text \<open>The body of the innermost loop of \<open>Tile\<close>, for the tile at \<open>(x, y)\<close>.\<close>

definition Tile_pixel ::
  "(float64 \<Rightarrow> 8 word) \<Rightarrow> Rectangle \<Rightarrow> Image \<Rightarrow> float64 \<Rightarrow> int \<Rightarrow> int \<Rightarrow> nat \<Rightarrow> nat \<Rightarrow> RGBA_image \<Rightarrow> RGBA_image" where
  "Tile_pixel impl srcBounds watermark opacity x y wy wx dst =
     (let wmBounds = Bounds watermark;
          dx = go_add x (int wx);
          dy = go_add y (int wy)
      in if Dx srcBounds \<le> dx \<or> Dy srcBounds \<le> dy then dst
         else
           let srcColor = RGBAAt dst dx dy;
               wmColor = At watermark (go_add (X (MinPt wmBounds)) (int wx)) (go_add (Y (MinPt wmBounds)) (int wy));
               blended = blendColors impl srcColor wmColor opacity
           in Set dst dx dy blended)"

text \<open>The two inner loops (over \<open>wy\<close> and \<open>wx\<close>): one tile drawn at \<open>(x, y)\<close>.\<close>

definition Tile_stamp ::
  "(float64 \<Rightarrow> 8 word) \<Rightarrow> Rectangle \<Rightarrow> Image \<Rightarrow> float64 \<Rightarrow> int \<Rightarrow> int \<Rightarrow> RGBA_image \<Rightarrow> RGBA_image" where
  "Tile_stamp impl srcBounds watermark opacity x y dst =
     fold (\<lambda>wy. fold (Tile_pixel impl srcBounds watermark opacity x y wy)
                    [0..<nat (Dx (Bounds watermark))])
          [0..<nat (Dy (Bounds watermark))] dst"

text \<open>
  The loops over the tile origins, \<open>for x := 0; x < srcBounds.Dx(); x += wmW\<close> inside
  \<open>for y := 0; y < srcBounds.Dy(); y += wmH\<close>. Nothing bounds the number of iterations
  when a stride is not positive, so the loops are partial functions: \<open>None\<close> is a
  loop that never ends. The loop variables \<open>x\<close> and \<open>y\<close> are \<open>tx\<close> and \<open>ty\<close> here, and
  \<open>stamp\<close> is the drawing of one tile (the two inner loops).
\<close>

partial_function (option) Tile_cols ::
  "(RGBA_image \<Rightarrow> int \<Rightarrow> RGBA_image) \<Rightarrow> int \<Rightarrow> int \<Rightarrow> int \<Rightarrow> RGBA_image \<Rightarrow> RGBA_image option" where
  "Tile_cols stamp width wmW tx dst =
     (if tx < width then Tile_cols stamp width wmW (go_add tx wmW) (stamp dst tx) else Some dst)"

partial_function (option) Tile_rows ::
  "(RGBA_image \<Rightarrow> int \<Rightarrow> int \<Rightarrow> RGBA_image) \<Rightarrow> int \<Rightarrow> int \<Rightarrow> int \<Rightarrow> int \<Rightarrow> int \<Rightarrow> RGBA_image \<Rightarrow> RGBA_image option" where
  "Tile_rows stamp width height wmW wmH ty dst =
     (if ty < height
      then Option.bind (Tile_cols (\<lambda>d tx. stamp d tx ty) width wmW 0 dst)
             (\<lambda>dst'. Tile_rows stamp width height wmW wmH (go_add ty wmH) dst')
      else Some dst)"

definition Tile :: "(float64 \<Rightarrow> 8 word) \<Rightarrow> Image \<Rightarrow> Image \<Rightarrow> float64 \<Rightarrow> int \<Rightarrow> RGBA_image outcome option" where
  "Tile impl src watermark opacity spacing =
     (let srcBounds = Bounds src;
          wmBounds = Bounds watermark
      in case NewRGBA srcBounds of
           Panics msg \<Rightarrow> Some (Panics msg)
         | Returns dst0 \<Rightarrow>
             let dst = Draw dst0 srcBounds src (MinPt srcBounds);
                 wmW = go_add (Dx wmBounds) spacing;
                 wmH = go_add (Dy wmBounds) spacing
             in map_option Returns
                  (Tile_rows (\<lambda>d tx ty. Tile_stamp impl srcBounds watermark opacity tx ty d)
                     (Dx srcBounds) (Dy srcBounds) wmW wmH 0 dst))"

section \<open>The renderers on a store\<close>












section \<open>Notions used to state the properties\<close>

text \<open>The alpha channel of a colour on the 16-bit scale (the fourth result of \<open>RGBA()\<close>).\<close>

definition alpha16 :: "color \<Rightarrow> 32 word" where
  "alpha16 c = (case RGBA_of c of (r, g, b, a) \<Rightarrow> a)"

text \<open>The alpha channel of a colour as 8 bits: the byte an \<open>*image.RGBA\<close> stores for it.\<close>

definition alpha8 :: "color \<Rightarrow> 8 word" where
  "alpha8 c = (case rgbaModel c of (r, g, b, a) \<Rightarrow> a)"

text \<open>\<open>image.Rect(x0, y0, x1, y1)\<close> for \<open>x0 \<le> x1\<close> and \<open>y0 \<le> y1\<close>.\<close>

definition rect :: "int \<Rightarrow> int \<Rightarrow> int \<Rightarrow> int \<Rightarrow> Rectangle" where
  "rect x0 y0 x1 y1 = \<lparr>MinPt = \<lparr>X = x0, Y = y0\<rparr>, MaxPt = \<lparr>X = x1, Y = y1\<rparr>\<rparr>"

text \<open>
  The starting canvas: the first two statements of \<open>Apply\<close> and of \<open>Tile\<close>
  (\<open>image.NewRGBA\<close>, then \<open>draw.Draw\<close> of the whole base image).
\<close>

definition canvas :: "Image \<Rightarrow> RGBA_image outcome" where
  "canvas src =
     (case NewRGBA (Bounds src) of
        Panics msg \<Rightarrow> Panics msg
      | Returns dst0 \<Rightarrow> Returns (Draw dst0 (Bounds src) src (MinPt (Bounds src))))"

text \<open>
  The blend as the specification words it, for comparison with \<open>blendColors\<close>: the
  formula \<open>base * (1 - effective_alpha) + overlay * effective_alpha\<close> on the channel
  values of the 16-bit scale, in floating point, reduced to 8 bits only at the final
  step (the 16-bit result divided by 256, truncated: its high byte).
\<close>

definition spec_blendChannel :: "(float64 \<Rightarrow> 8 word) \<Rightarrow> float64 \<Rightarrow> 32 word \<Rightarrow> 32 word \<Rightarrow> 8 word" where
  "spec_blendChannel impl effective_alpha base_channel overlay_channel =
     uint8_of_float64 impl
       (fdiv (fadd (fmul (float64_of_uint32 base_channel) (fsub (Finite 1) effective_alpha))
                   (fmul (float64_of_uint32 overlay_channel) effective_alpha))
             (Finite 256))"

definition spec_blend :: "(float64 \<Rightarrow> 8 word) \<Rightarrow> color \<Rightarrow> color \<Rightarrow> float64 \<Rightarrow> color" where
  "spec_blend impl base overlay opacity =
     (case RGBA_of base of (br, bg, bb, ba) \<Rightarrow>
      case RGBA_of overlay of (or', og, ob, oa) \<Rightarrow>
        let effective_alpha = fmul (fdiv (float64_of_uint32 oa) (Finite 65535)) opacity
        in RGBA (spec_blendChannel impl effective_alpha br or')
                (spec_blendChannel impl effective_alpha bg og)
                (spec_blendChannel impl effective_alpha bb ob)
                (ucast (drop_bit 8 ba)))"

text \<open>An image of one colour on a rectangle, to state examples.\<close>

definition solid :: "Rectangle \<Rightarrow> color \<Rightarrow> Image" where
  "solid r c = \<lparr>Bounds = r, At = (\<lambda>x y. c)\<rparr>"




section \<open>Basic facts\<close>

lemma wrap_id: "is_int64 i \<Longrightarrow> wrap i = i"
  by (simp add: wrap_def is_int64_def)

text \<open>
  The equation of \<open>ilog2\<close> rewrites every application of it, so it is taken out of the
  simplifier's rules; on numerals the three equations below compute it.
\<close>

declare ilog2.simps [simp del]

lemma ilog2_0: "ilog2 0 = 0"
  by (simp add: ilog2.simps)

lemma ilog2_1: "ilog2 1 = 0"
  by (simp add: ilog2.simps)

lemma ilog2_Suc_0: "ilog2 (Suc 0) = 0"
  by (simp add: ilog2.simps)

lemma ilog2_Bit0: "ilog2 (numeral (Num.Bit0 n)) = Suc (ilog2 (numeral n))"
  by (subst ilog2.simps) simp

lemma ilog2_Bit1: "ilog2 (numeral (Num.Bit1 n)) = Suc (ilog2 (numeral n))"
  by (subst ilog2.simps) simp

lemmas ilog2_eval = ilog2_0 ilog2_1 ilog2_Suc_0 ilog2_Bit0 ilog2_Bit1

lemma high_byte_widen8: "ucast (drop_bit 8 (widen8 c)) = c"
  unfolding widen8_def Let_def
  by (rule bit_word_eqI) (auto simp add: bit_simps dest: bit_imp_le_length)

lemma rgbaModel_high_bytes:
  "rgbaModel c = (case RGBA_of c of (r, g, b, a) \<Rightarrow>
      (ucast (drop_bit 8 r), ucast (drop_bit 8 g), ucast (drop_bit 8 b), ucast (drop_bit 8 a)))"
  by (cases c) (simp_all add: rgbaModel_def high_byte_widen8)

lemma Dx_rect: "is_int64 (x1 - x0) \<Longrightarrow> Dx (rect x0 y0 x1 y1) = x1 - x0"
  by (simp add: Dx_def rect_def go_sub_def wrap_id)

lemma Dy_rect: "is_int64 (y1 - y0) \<Longrightarrow> Dy (rect x0 y0 x1 y1) = y1 - y0"
  by (simp add: Dy_def rect_def go_sub_def wrap_id)

lemma go_quo_2: "is_int64 i \<Longrightarrow> go_quo i 2 = i sdiv 2"
  unfolding go_quo_def
  by (rule wrap_id) (auto simp add: signed_divide_int_def is_int64_def sgn_if abs_if)

lemmas float_eval =
  float64_of_uint32_def uint8_of_float64_def trunc_zero_def fsub_def round_f64_def nearest_def
  exponent_def pow2_def round_half_even_def ilog2_eval

subsection \<open>Rounding is exact on small integers\<close>

lemma ilog2_le: "n < 2 ^ Suc k \<Longrightarrow> ilog2 n \<le> k"
proof (induction k arbitrary: n)
  case 0
  then show ?case by (simp add: ilog2.simps)
next
  case (Suc k)
  show ?case
  proof (cases "n < 2")
    case True
    then show ?thesis by (simp add: ilog2.simps)
  next
    case False
    from Suc.prems have "n div 2 < 2 ^ Suc k" by simp
    then have "ilog2 (n div 2) \<le> k" by (rule Suc.IH)
    with False show ?thesis by (subst ilog2.simps) simp
  qed
qed

lemma round_half_even_of_int: "round_half_even (of_int j) = j"
  by (simp add: round_half_even_def)

lemma nearest_of_nat:
  assumes "n < 2 ^ 53"
  shows "nearest (real n) = real n"
proof (cases "n = 0")
  case True
  then show ?thesis by (simp add: nearest_def)
next
  case False
  from assms have e: "ilog2 n \<le> 52" by (intro ilog2_le) simp
  define k where "k = 52 - ilog2 n"
  from False have ex: "exponent (real n) = int (ilog2 n)"
    by (simp add: exponent_def)
  have ulp: "pow2 (max (exponent (real n)) (- 1022) - 52) = 1 / 2 ^ k"
  proof (cases "ilog2 n = 52")
    case True
    then show ?thesis by (simp add: ex pow2_def k_def)
  next
    case False
    with e have "ilog2 n < 52" by simp
    then have "nat (52 - int (ilog2 n)) = k" by (simp add: k_def)
    with \<open>ilog2 n < 52\<close> show ?thesis by (simp add: ex pow2_def)
  qed
  have "real n / (1 / 2 ^ k) = of_int (int n * 2 ^ k)"
    by simp
  then have "round_half_even (real n / (1 / 2 ^ k)) = int n * 2 ^ k"
    by (simp only: round_half_even_of_int)
  with False show ?thesis
    by (simp add: nearest_def ulp)
qed

lemma round_f64_of_nat: "n < 2 ^ 53 \<Longrightarrow> round_f64 (real n) = Finite (real n)"
proof -
  assume n: "n < 2 ^ 53"
  then have "real n < 2 ^ 53"
    by (metis of_nat_less_iff of_nat_numeral of_nat_power)
  moreover have "(2::real) ^ 53 \<le> 2 ^ 1024 - 2 ^ 970" by simp
  ultimately have "\<not> 2 ^ 1024 - 2 ^ 970 \<le> \<bar>real n\<bar>" by simp
  with n show ?thesis by (simp add: round_f64_def nearest_of_nat)
qed

lemma round_f64_0: "round_f64 0 = Finite 0"
  using round_f64_of_nat [of 0] by simp

lemma round_f64_1: "round_f64 1 = Finite 1"
  using round_f64_of_nat [of 1] by simp

lemma round_f64_small: "\<bar>x\<bar> < 2 ^ 53 \<Longrightarrow> round_f64 x = Finite (nearest x)"
proof -
  assume "\<bar>x\<bar> < 2 ^ 53"
  moreover have "(2::real) ^ 53 \<le> 2 ^ 1024 - 2 ^ 970" by simp
  ultimately have "\<not> 2 ^ 1024 - 2 ^ 970 \<le> \<bar>x\<bar>" by linarith
  then show ?thesis by (simp add: round_f64_def)
qed

lemma drop_widen8: "drop_bit 8 (widen8 c) = ucast c"
  unfolding widen8_def Let_def
  by (rule bit_word_eqI) (auto simp add: bit_simps dest: bit_imp_le_length)

lemma unat_byte_bound: "unat (c :: 8 word) < 2 ^ 53"
proof -
  have "unat c < 2 ^ 8" using unsigned_less [of c] by simp
  then show ?thesis by simp
qed

lemma round_f64_byte: "round_f64 (unsigned (c :: 8 word)) = Finite (unsigned c)"
  using round_f64_of_nat [OF unat_byte_bound, of c] by simp

lemma blendChannel_opacity_0:
  "blendChannel impl (Finite 0) (widen8 c) ov = c"
proof -
  have "unat c < 2 ^ 8" using unsigned_less [of c] by simp
  then have "unat c < 2 ^ 32" by simp
  then have u: "unat (ucast c :: 32 word) = unat c"
    by (simp add: unsigned_ucast_eq take_bit_nat_eq_self)
  have b: "0 \<le> uint c" "uint c \<le> 255"
    using uint_lt2p [of c] by simp_all
  have "blendChannel impl (Finite 0) (widen8 c) ov
      = uint8_of_float64 impl (fadd (round_f64 (unsigned c)) (round_f64 0))"
    by (simp add: blendChannel_def drop_widen8 float64_of_uint32_def u fsub_def round_f64_1
        round_f64_0)
  also have "\<dots> = uint8_of_float64 impl (Finite (unsigned c))"
    by (simp add: round_f64_byte round_f64_0)
  also have "\<dots> = uint8_of_float64 impl (Finite (of_int (uint c)))"
    by (simp only: of_int_uint)
  also have "\<dots> = c"
    using b by (simp add: uint8_of_float64_def trunc_zero_def del: of_int_uint, simp)
  finally show ?thesis .
qed

lemma overlayAlpha_opacity_0:
  "fmul (fdiv (float64_of_uint32 oa) (Finite 65535)) (Finite 0) = Finite 0"
proof -
  have "unat oa < 2 ^ 32" using unsigned_less [of oa] by simp
  then have "real (unat oa) < 2 ^ 32"
    by (metis of_nat_less_iff of_nat_numeral of_nat_power)
  moreover have "0 \<le> real (unat oa)" by (rule of_nat_0_le_iff)
  ultimately have small: "\<bar>real (unat oa) / 65535\<bar> < 2 ^ 53" by (simp only: abs_of_nonneg divide_nonneg_pos) simp
  have "fdiv (float64_of_uint32 oa) (Finite 65535) = round_f64 (real (unat oa) / 65535)"
    by (simp add: float64_of_uint32_def)
  also have "\<dots> = Finite (nearest (real (unat oa) / 65535))"
    using small by (rule round_f64_small)
  finally show ?thesis
    by (simp add: round_f64_0)
qed

lemma blendColors_opacity_0:
  "blendColors impl (RGBA r g b a) overlay (Finite 0) = RGBA r g b a"
  by (cases "RGBA_of overlay")
     (simp add: blendColors_def overlayAlpha_opacity_0 blendChannel_opacity_0 high_byte_widen8)

subsection \<open>Image buffers\<close>

lemma Set_RGBAAt: "Set p x y (RGBAAt p x y) = p"
  by (cases "Pix p (x, y)") (simp add: Set_def RGBAAt_def rgbaModel_def fun_upd_idem)

lemma RGBAAt_cases: obtains r g b a where "RGBAAt p x y = RGBA r g b a"
  by (cases "Pix p (x, y)"; cases "In x y (Rect p)") (simp_all add: RGBAAt_def)

lemma fold_unchanged: "(\<And>x s. f x s = s) \<Longrightarrow> fold f xs s = s"
  by (induction xs) simp_all

subsection \<open>The loops over the tile origins\<close>

text \<open>
  A column loop whose stride is zero does not return; a loop whose tiles change nothing
  returns, if at all, the buffer it started with; with positive strides and sides
  below 2^62 both loops return, and keep whatever each tile keeps.
\<close>

lemma Tile_cols_no_return:
  assumes "Tile_cols stamp width wmW tx dst = Some r"
  shows "\<not> (wmW = 0 \<and> is_int64 tx \<and> tx < width)"
proof (rule Tile_cols.raw_induct
    [where P = "\<lambda>stamp width wmW tx dst r. \<not> (wmW = 0 \<and> is_int64 tx \<and> tx < width)", OF _ assms])
  fix f stamp width wmW tx and dst r :: RGBA_image
  assume IH: "\<And>stamp width wmW tx dst r. f stamp width wmW tx dst = Some r
      \<Longrightarrow> \<not> (wmW = 0 \<and> is_int64 tx \<and> tx < width)"
    and step: "(if tx < width then f stamp width wmW (go_add tx wmW) (stamp dst tx) else Some dst) = Some r"
  show "\<not> (wmW = 0 \<and> is_int64 tx \<and> tx < width)"
  proof
    assume a: "wmW = 0 \<and> is_int64 tx \<and> tx < width"
    then have "go_add tx wmW = tx" by (simp add: go_add_def wrap_id)
    with a step have "f stamp width wmW tx (stamp dst tx) = Some r" by simp
    from IH [OF this] a show False by simp
  qed
qed

lemma Tile_cols_zero_stride:
  "is_int64 tx \<Longrightarrow> tx < width \<Longrightarrow> Tile_cols stamp width 0 tx dst = None"
  using Tile_cols_no_return [of stamp width 0 tx dst] by (cases "Tile_cols stamp width 0 tx dst") auto

lemma Tile_cols_unchanged:
  assumes "Tile_cols stamp width wmW tx dst = Some r"
  shows "(\<forall>d t. stamp d t = d) \<longrightarrow> r = dst"
proof (rule Tile_cols.raw_induct
    [where P = "\<lambda>stamp width wmW tx dst r. (\<forall>d t. stamp d t = d) \<longrightarrow> r = dst", OF _ assms])
  fix f stamp width wmW tx and dst r :: RGBA_image
  assume IH: "\<And>stamp width wmW tx dst r. f stamp width wmW tx dst = Some r
      \<Longrightarrow> (\<forall>d t. stamp d t = d) \<longrightarrow> r = dst"
    and step: "(if tx < width then f stamp width wmW (go_add tx wmW) (stamp dst tx) else Some dst) = Some r"
  show "(\<forall>d t. stamp d t = d) \<longrightarrow> r = dst"
  proof
    assume s: "\<forall>d t. stamp d t = d"
    show "r = dst"
    proof (cases "tx < width")
      case True
      with step s have "f stamp width wmW (go_add tx wmW) dst = Some r" by simp
      from IH [OF this] s show ?thesis by simp
    next
      case False
      with step show ?thesis by simp
    qed
  qed
qed

lemma Tile_rows_unchanged:
  assumes "Tile_rows stamp width height wmW wmH ty dst = Some r"
  shows "(\<forall>d tx ty. stamp d tx ty = d) \<longrightarrow> r = dst"
proof (rule Tile_rows.raw_induct
    [where P = "\<lambda>stamp width height wmW wmH ty dst r. (\<forall>d tx ty. stamp d tx ty = d) \<longrightarrow> r = dst",
      OF _ assms])
  fix f stamp width height wmW wmH ty and dst r :: RGBA_image
  assume IH: "\<And>stamp width height wmW wmH ty dst r. f stamp width height wmW wmH ty dst = Some r
      \<Longrightarrow> (\<forall>d tx ty. stamp d tx ty = d) \<longrightarrow> r = dst"
    and step: "(if ty < height
      then Option.bind (Tile_cols (\<lambda>d tx. stamp d tx ty) width wmW 0 dst)
             (f stamp width height wmW wmH (go_add ty wmH))
      else Some dst) = Some r"
  show "(\<forall>d tx ty. stamp d tx ty = d) \<longrightarrow> r = dst"
  proof
    assume s: "\<forall>d tx ty. stamp d tx ty = d"
    show "r = dst"
    proof (cases "ty < height")
      case True
      with step obtain d' where c: "Tile_cols (\<lambda>d tx. stamp d tx ty) width wmW 0 dst = Some d'"
        and r: "f stamp width height wmW wmH (go_add ty wmH) d' = Some r"
        by (auto simp add: bind_eq_Some_conv)
      from Tile_cols_unchanged [OF c] s have "d' = dst" by simp
      with IH [OF r] s show ?thesis by simp
    next
      case False
      with step show ?thesis by simp
    qed
  qed
qed

lemma Tile_cols_Some:
  assumes "0 < wmW" "is_int64 wmW" "width < 2 ^ 62"
    and inv: "\<And>d t. Q d \<Longrightarrow> Q (stamp d t)"
  shows "0 \<le> tx \<Longrightarrow> tx = 0 \<or> wmW \<le> tx \<Longrightarrow> Q dst
    \<Longrightarrow> \<exists>r. Tile_cols stamp width wmW tx dst = Some r \<and> Q r"
proof (induction "nat (width - tx)" arbitrary: tx dst rule: less_induct)
  case less
  show ?case
  proof (cases "tx < width")
    case False
    with less.prems show ?thesis by (subst Tile_cols.simps) simp
  next
    case True
    have "is_int64 (tx + wmW)"
      using True less.prems assms(1-3) by (auto simp add: is_int64_def)
    then have n: "go_add tx wmW = tx + wmW" by (simp add: go_add_def wrap_id)
    have "nat (width - (tx + wmW)) < nat (width - tx)"
      using True assms(1) by simp
    moreover have "0 \<le> tx + wmW" "tx + wmW = 0 \<or> wmW \<le> tx + wmW"
      using less.prems assms(1) by simp_all
    moreover have "Q (stamp dst tx)" using less.prems by (simp add: inv)
    ultimately have "\<exists>r. Tile_cols stamp width wmW (tx + wmW) (stamp dst tx) = Some r \<and> Q r"
      by (rule less.hyps)
    with True n show ?thesis by (subst Tile_cols.simps) simp
  qed
qed

lemma Tile_rows_Some:
  assumes "0 < wmW" "is_int64 wmW" "width < 2 ^ 62"
    and "0 < wmH" "is_int64 wmH" "height < 2 ^ 62"
    and inv: "\<And>d tx ty. Q d \<Longrightarrow> Q (stamp d tx ty)"
  shows "0 \<le> ty \<Longrightarrow> ty = 0 \<or> wmH \<le> ty \<Longrightarrow> Q dst
    \<Longrightarrow> \<exists>r. Tile_rows stamp width height wmW wmH ty dst = Some r \<and> Q r"
proof (induction "nat (height - ty)" arbitrary: ty dst rule: less_induct)
  case less
  show ?case
  proof (cases "ty < height")
    case False
    with less.prems show ?thesis by (subst Tile_rows.simps) simp
  next
    case True
    have "is_int64 (ty + wmH)"
      using True less.prems assms(4-6) by (auto simp add: is_int64_def)
    then have n: "go_add ty wmH = ty + wmH" by (simp add: go_add_def wrap_id)
    have "\<exists>d'. Tile_cols (\<lambda>d tx. stamp d tx ty) width wmW 0 dst = Some d' \<and> Q d'"
      using assms(1-3) less.prems(3) by (intro Tile_cols_Some [where Q = Q]) (simp_all add: inv)
    then obtain d' where c: "Tile_cols (\<lambda>d tx. stamp d tx ty) width wmW 0 dst = Some d'" and q: "Q d'"
      by blast
    have "nat (height - (ty + wmH)) < nat (height - ty)"
      using True assms(4) by simp
    moreover have "0 \<le> ty + wmH" "ty + wmH = 0 \<or> wmH \<le> ty + wmH"
      using less.prems assms(4) by simp_all
    ultimately have "\<exists>r. Tile_rows stamp width height wmW wmH (ty + wmH) d' = Some r \<and> Q r"
      using q by (rule less.hyps)
    with True n c show ?thesis by (subst Tile_rows.simps) simp
  qed
qed

subsection \<open>Renderings that change nothing\<close>

lemma blendColors_alpha_zero:
  "alpha16 overlay = 0 \<Longrightarrow> blendColors impl base overlay opacity = base"
  by (simp add: blendColors_def alpha16_def split: prod.splits)

lemma Apply_pixel_transparent:
  assumes "\<And>u v. alpha16 (At watermark u v) = 0"
  shows "Apply_pixel impl srcBounds watermark opacity x y wy wx dst = dst"
  by (simp add: Apply_pixel_def Let_def blendColors_alpha_zero [OF assms] Set_RGBAAt)

lemma Tile_pixel_transparent:
  assumes "\<And>u v. alpha16 (At watermark u v) = 0"
  shows "Tile_pixel impl srcBounds watermark opacity x y wy wx dst = dst"
  by (simp add: Tile_pixel_def Let_def blendColors_alpha_zero [OF assms] Set_RGBAAt)

lemma Tile_pixel_opacity_0:
  "Tile_pixel impl srcBounds watermark (Finite 0) x y wy wx dst = dst"
proof -
  have "Set dst u v (blendColors impl (RGBAAt dst u v) c (Finite 0)) = dst" for u v c
  proof -
    obtain r g b a where "RGBAAt dst u v = RGBA r g b a" by (rule RGBAAt_cases)
    then show ?thesis
      using Set_RGBAAt [of dst u v] by (simp add: blendColors_opacity_0)
  qed
  then show ?thesis by (simp add: Tile_pixel_def Let_def)
qed

lemma Tile_stamp_transparent:
  assumes "\<And>u v. alpha16 (At watermark u v) = 0"
  shows "Tile_stamp impl srcBounds watermark opacity x y dst = dst"
  unfolding Tile_stamp_def
  by (intro fold_unchanged) (simp add: Tile_pixel_transparent [OF assms])

lemma Tile_stamp_opacity_0:
  "Tile_stamp impl srcBounds watermark (Finite 0) x y dst = dst"
  unfolding Tile_stamp_def
  by (intro fold_unchanged) (simp add: Tile_pixel_opacity_0)

lemma is_int64_wrap: "is_int64 (wrap i)"
  by (simp add: wrap_def is_int64_def)

lemma is_int64_go_add: "is_int64 (go_add a b)"
  by (simp add: go_add_def is_int64_wrap)

lemma NewRGBA_Returns:
  assumes "0 \<le> Dx r" "Dx r < 2 ^ 62" "0 \<le> Dy r" "4 * Dx r * Dy r < 2 ^ 63"
  shows "NewRGBA r = Returns \<lparr>Rect = r, Pix = (\<lambda>_. (0, 0, 0, 0))\<rparr>"
proof -
  have m: "mul3NonNeg 4 (Dx r) (Dy r) = 4 * (Dx r * Dy r)"
    using assms by (simp add: mul3NonNeg_def)
  have "0 \<le> Dx r * Dy r" using assms(1,3) by (rule mult_nonneg_nonneg)
  then have "\<not> 4 * (Dx r * Dy r) < 0" by linarith
  then show ?thesis unfolding NewRGBA_def m by (simp only: if_False)
qed

lemma NewRGBA_ReturnsD:
  assumes "NewRGBA r = Returns buf"
  shows "0 \<le> Dx r" "Dx r < 2 ^ 62" "0 \<le> Dy r" "4 * Dx r * Dy r < 2 ^ 63"
    "buf = \<lparr>Rect = r, Pix = (\<lambda>_. (0, 0, 0, 0))\<rparr>"
proof -
  from assms have m: "\<not> mul3NonNeg 4 (Dx r) (Dy r) < 0"
    and b: "buf = \<lparr>Rect = r, Pix = (\<lambda>_. (0, 0, 0, 0))\<rparr>"
    by (simp_all add: NewRGBA_def split: if_splits)
  from b show "buf = \<lparr>Rect = r, Pix = (\<lambda>_. (0, 0, 0, 0))\<rparr>" .
  from m show "0 \<le> Dx r" by (simp add: mul3NonNeg_def split: if_splits)
  from m show "0 \<le> Dy r" by (simp add: mul3NonNeg_def split: if_splits)
  from m show "Dx r < 2 ^ 62" by (simp add: mul3NonNeg_def split: if_splits)
  from m show "4 * Dx r * Dy r < 2 ^ 63" by (simp add: mul3NonNeg_def split: if_splits)
qed

text \<open>What \<open>Tile\<close> returns when no tile changes the buffer.\<close>

lemma Tile_unchanged:
  assumes st: "\<And>x y d. Tile_stamp impl (Bounds src) watermark opacity x y d = d"
  shows "(\<forall>r. Tile impl src watermark opacity spacing = Some r \<longrightarrow> r = canvas src)
    \<and> (0 < go_add (Dx (Bounds watermark)) spacing \<and> 0 < go_add (Dy (Bounds watermark)) spacing
        \<and> Dy (Bounds src) < 2 ^ 62
       \<longrightarrow> Tile impl src watermark opacity spacing = Some (canvas src))"
proof (cases "NewRGBA (Bounds src)")
  case (Panics msg)
  then show ?thesis by (simp add: Tile_def canvas_def)
next
  case (Returns dst0)
  define dst where "dst = Draw dst0 (Bounds src) src (MinPt (Bounds src))"
  define stamp where "stamp = (\<lambda>d tx ty. Tile_stamp impl (Bounds src) watermark opacity tx ty d)"
  define wmW where "wmW = go_add (Dx (Bounds watermark)) spacing"
  define wmH where "wmH = go_add (Dy (Bounds watermark)) spacing"
  have T: "Tile impl src watermark opacity spacing
      = map_option Returns (Tile_rows stamp (Dx (Bounds src)) (Dy (Bounds src)) wmW wmH 0 dst)"
    by (simp add: Tile_def Returns Let_def dst_def stamp_def wmW_def wmH_def)
  have C: "canvas src = Returns dst"
    by (simp add: canvas_def Returns dst_def)
  have id: "\<forall>d tx ty. stamp d tx ty = d"
    by (simp add: stamp_def st)
  have part: "r = canvas src" if "Tile impl src watermark opacity spacing = Some r" for r
  proof -
    from that T obtain d where d: "Tile_rows stamp (Dx (Bounds src)) (Dy (Bounds src)) wmW wmH 0 dst = Some d"
      and r: "r = Returns d" by auto
    from Tile_rows_unchanged [OF d] id have "d = dst" by simp
    with r C show ?thesis by simp
  qed
  have tot: "Tile impl src watermark opacity spacing = Some (canvas src)"
    if "0 < wmW" "0 < wmH" "Dy (Bounds src) < 2 ^ 62"
  proof -
    note NewRGBA_ReturnsD(2) [OF Returns]
    have "\<exists>r. Tile_rows stamp (Dx (Bounds src)) (Dy (Bounds src)) wmW wmH 0 dst = Some r \<and> r = dst"
      using that id \<open>Dx (Bounds src) < 2 ^ 62\<close>
      by (intro Tile_rows_Some [where Q = "\<lambda>d. d = dst"])
        (simp_all add: wmW_def wmH_def is_int64_go_add)
    with T C show ?thesis by auto
  qed
  from part tot show ?thesis
    unfolding wmW_def wmH_def by blast
qed

lemma Apply_unchanged:
  assumes "\<And>x y wy wx d o'. Apply_pixel impl (Bounds src) watermark o' x y wy wx d = d"
  shows "Apply impl src watermark opts = canvas src"
proof -
  have "fold (\<lambda>wy. fold (Apply_pixel impl (Bounds src) watermark o' x y wy) xs) ys d = d"
    for o' x y xs ys d
    by (intro fold_unchanged) (simp add: assms)
  then show ?thesis
    by (simp add: Apply_def canvas_def Let_def split: outcome.splits prod.splits)
qed

lemma normOpacity_le_0: "fle opacity (Finite 0) \<Longrightarrow> normOpacity opacity = Finite (1 / 2)"
  by (simp add: normOpacity_def fgt_def)

lemma normOpacity_gt_1: "fgt opacity (Finite 1) \<Longrightarrow> normOpacity opacity = Finite 1"
  by (cases opacity) (auto simp add: normOpacity_def fgt_def)

lemma normOpacity_else:
  "\<not> fle opacity (Finite 0) \<Longrightarrow> \<not> fgt opacity (Finite 1) \<Longrightarrow> normOpacity opacity = opacity"
  by (simp add: normOpacity_def)

lemma Apply_normOpacity:
  "normOpacity o1 = normOpacity o2
    \<Longrightarrow> Apply impl src watermark (opts\<lparr>Opacity := o1\<rparr>) = Apply impl src watermark (opts\<lparr>Opacity := o2\<rparr>)"
  by (cases "NewRGBA (Bounds src)") (simp_all add: Apply_def Let_def)

lemma Tile_zero_stride:
  assumes "NewRGBA (Bounds src) = Returns buf"
    and "0 < Dx (Bounds src)" "0 < Dy (Bounds src)"
    and "go_add (Dx (Bounds watermark)) spacing = 0"
  shows "Tile impl src watermark opacity spacing = None"
proof -
  have "is_int64 0" by (simp add: is_int64_def)
  then have "Tile_cols stamp (Dx (Bounds src)) 0 0 d = None" for stamp d
    using assms(2) by (rule Tile_cols_zero_stride)
  then have "Tile_rows stamp (Dx (Bounds src)) (Dy (Bounds src)) 0 wmH 0 d = None" for stamp wmH d
    using assms(3) by (subst Tile_rows.simps) simp
  then show ?thesis
    by (simp add: Tile_def assms(1,4) Let_def)
qed


lemma solid_simps: "Bounds (solid r c) = r" "At (solid r c) x y = c"
  by (simp_all add: solid_def)

lemma unit_square: "Dx (rect 0 0 1 1) = 1" "Dy (rect 0 0 1 1) = 1"
  "NewRGBA (rect 0 0 1 1) = Returns \<lparr>Rect = rect 0 0 1 1, Pix = (\<lambda>_. (0, 0, 0, 0))\<rparr>"
proof -
  show d: "Dx (rect 0 0 1 1) = 1" "Dy (rect 0 0 1 1) = 1"
    by (simp_all add: Dx_rect Dy_rect is_int64_def)
  show "NewRGBA (rect 0 0 1 1) = Returns \<lparr>Rect = rect 0 0 1 1, Pix = (\<lambda>_. (0, 0, 0, 0))\<rparr>"
    by (rule NewRGBA_Returns) (simp_all add: d)
qed

text \<open>What holds of a transparent overlay.\<close>

lemma transparent_overlay_unchanged:
  assumes "\<And>u v. alpha16 (At watermark u v) = 0"
  shows "Apply impl src watermark opts = canvas src"
    and "Tile impl src watermark opacity spacing = Some r \<Longrightarrow> r = canvas src"
    and "0 < go_add (Dx (Bounds watermark)) spacing \<Longrightarrow> 0 < go_add (Dy (Bounds watermark)) spacing
      \<Longrightarrow> Dy (Bounds src) < 2 ^ 62
      \<Longrightarrow> Tile impl src watermark opacity spacing = Some (canvas src)"
proof -
  show "Apply impl src watermark opts = canvas src"
    by (rule Apply_unchanged) (rule Apply_pixel_transparent [OF assms])
  note t = Tile_unchanged [of impl src watermark opacity spacing, OF Tile_stamp_transparent [OF assms]]
  from t show "Tile impl src watermark opacity spacing = Some r \<Longrightarrow> r = canvas src"
    by blast
  from t show "0 < go_add (Dx (Bounds watermark)) spacing \<Longrightarrow> 0 < go_add (Dy (Bounds watermark)) spacing
      \<Longrightarrow> Dy (Bounds src) < 2 ^ 62
      \<Longrightarrow> Tile impl src watermark opacity spacing = Some (canvas src)"
    by blast
qed

text \<open>
  The opacity that each renderer hands to the compositor: \<open>Apply\<close> renders an opacity
  \<open>\<le> 0\<close> as 0.5 and one \<open>> 1\<close> as 1; \<open>Tile\<close> with opacity 0 returns, if anything, the canvas.
\<close>

lemma opacity_in_Apply_and_Tile:
  "(fle opacity (Finite 0) \<longrightarrow>
      Apply impl src watermark (opts\<lparr>Opacity := opacity\<rparr>)
        = Apply impl src watermark (opts\<lparr>Opacity := Finite (1 / 2)\<rparr>))
   \<and> (fgt opacity (Finite 1) \<longrightarrow>
      Apply impl src watermark (opts\<lparr>Opacity := opacity\<rparr>)
        = Apply impl src watermark (opts\<lparr>Opacity := Finite 1\<rparr>))
   \<and> Apply impl src watermark (opts\<lparr>Opacity := Finite 0\<rparr>)
        = Apply impl src watermark (opts\<lparr>Opacity := Finite (1 / 2)\<rparr>)
   \<and> (\<forall>r. Tile impl src watermark (Finite 0) spacing = Some r \<longrightarrow> r = canvas src)
   \<and> (0 < go_add (Dx (Bounds watermark)) spacing \<and> 0 < go_add (Dy (Bounds watermark)) spacing
        \<and> Dy (Bounds src) < 2 ^ 62
       \<longrightarrow> Tile impl src watermark (Finite 0) spacing = Some (canvas src))"
proof -
  have h: "normOpacity (Finite (1 / 2)) = Finite (1 / 2)" "normOpacity (Finite 1) = Finite 1"
    "normOpacity (Finite 0) = Finite (1 / 2)"
    by (simp_all add: normOpacity_def fgt_def)
  have a: "Apply impl src watermark (opts\<lparr>Opacity := opacity\<rparr>)
        = Apply impl src watermark (opts\<lparr>Opacity := Finite (1 / 2)\<rparr>)"
    if "fle opacity (Finite 0)"
    by (rule Apply_normOpacity) (simp add: h normOpacity_le_0 [OF that])
  have b: "Apply impl src watermark (opts\<lparr>Opacity := opacity\<rparr>)
        = Apply impl src watermark (opts\<lparr>Opacity := Finite 1\<rparr>)"
    if "fgt opacity (Finite 1)"
    by (rule Apply_normOpacity) (simp add: h normOpacity_gt_1 [OF that])
  have c: "Apply impl src watermark (opts\<lparr>Opacity := Finite 0\<rparr>)
        = Apply impl src watermark (opts\<lparr>Opacity := Finite (1 / 2)\<rparr>)"
    by (rule Apply_normOpacity) (simp add: h)
  note t = Tile_unchanged [of impl src watermark "Finite 0" spacing, OF Tile_stamp_opacity_0]
  from a b c t show ?thesis by blast
qed

subsection \<open>The pixels that \<open>Apply\<close> writes\<close>


















lemma blend_black_white:
  "blendColors impl (RGBA 0 0 0 255) (RGBA 255 255 255 255) (Finite 1) = RGBA 255 255 255 255"
  by (simp add: blendColors_def blendChannel_def widen8_def float_eval Let_def)

lemma go_add_small: "go_add (- 1) 0 = - 1" "go_add (- 1) 1 = 0" "go_add 0 0 = 0" "go_add 0 1 = 1"
  "go_add 1 0 = 1" "go_add 1 1 = 2"
  by (simp_all add: go_add_def wrap_def)



lemma normOpacity_1: "normOpacity (Finite 1) = Finite 1"
  by (simp add: normOpacity_def fgt_def)

lemma In_rect: "In px py (rect x0 y0 x1 y1) = (x0 \<le> px \<and> px < x1 \<and> y0 \<le> py \<and> py < y1)"
  by (simp add: In_def rect_def)

lemma MinPt_rect: "X (MinPt (rect x0 y0 x1 y1)) = x0" "Y (MinPt (rect x0 y0 x1 y1)) = y0"
  by (simp_all add: rect_def)

lemma rect_10: "Dx (rect 10 10 12 12) = 2" "Dy (rect 10 10 12 12) = 2"
  "NewRGBA (rect 10 10 12 12) = Returns \<lparr>Rect = rect 10 10 12 12, Pix = (\<lambda>_. (0, 0, 0, 0))\<rparr>"
proof -
  show d: "Dx (rect 10 10 12 12) = 2" "Dy (rect 10 10 12 12) = 2"
    by (simp_all add: Dx_rect Dy_rect is_int64_def)
  show "NewRGBA (rect 10 10 12 12) = Returns \<lparr>Rect = rect 10 10 12 12, Pix = (\<lambda>_. (0, 0, 0, 0))\<rparr>"
    by (rule NewRGBA_Returns) (simp_all add: d)
qed

lemma rect_1: "Dx (rect 1 1 3 3) = 2" "Dy (rect 1 1 3 3) = 2"
  "NewRGBA (rect 1 1 3 3) = Returns \<lparr>Rect = rect 1 1 3 3, Pix = (\<lambda>_. (0, 0, 0, 0))\<rparr>"
proof -
  show d: "Dx (rect 1 1 3 3) = 2" "Dy (rect 1 1 3 3) = 2"
    by (simp_all add: Dx_rect Dy_rect is_int64_def)
  show "NewRGBA (rect 1 1 3 3) = Returns \<lparr>Rect = rect 1 1 3 3, Pix = (\<lambda>_. (0, 0, 0, 0))\<rparr>"
    by (rule NewRGBA_Returns) (simp_all add: d)
qed

subsection \<open>The renderers on a store and on the buffer alone\<close>





















section \<open>The compositor\<close>

text \<open>
  C1 (as amended). For an overlay pixel whose alpha is not zero, \<open>blendColors\<close> computes
  the effective alpha \<open>(overlay_alpha / 65535) * opacity\<close> and sets red, green and blue
  to \<open>base * (1 - effective_alpha) + overlay * effective_alpha\<close>, in floating point,
  converted to 8 bits by truncation: a value \<open>v\<close> with \<open>0 \<le> v < 256\<close> becomes
  \<open>\<lfloor>v\<rfloor>\<close>. The channels are read on the 16-bit scale and reduced to their high byte
  (\<open>>> 8\<close>) before the blend, so the formula works on 8-bit values.
\<close>

theorem blendColors_formula:
  assumes "RGBA_of base = (br, bg, bb, ba)"
    and "RGBA_of overlay = (or', og, ob, oa)"
    and "oa \<noteq> 0"
  shows "blendColors impl base overlay opacity =
      (let effective_alpha = fmul (fdiv (float64_of_uint32 oa) (Finite 65535)) opacity;
           channel = (\<lambda>b ov. uint8_of_float64 impl
              (fadd (fmul (float64_of_uint32 (drop_bit 8 b)) (fsub (Finite 1) effective_alpha))
                    (fmul (float64_of_uint32 (drop_bit 8 ov)) effective_alpha)))
       in RGBA (channel br or') (channel bg og) (channel bb ob) (ucast (drop_bit 8 ba)))
    \<and> (\<forall>v. 0 \<le> v \<and> v < 256 \<longrightarrow> uint8_of_float64 impl (Finite v) = word_of_int \<lfloor>v\<rfloor>)"
proof -
  have "uint8_of_float64 impl (Finite v) = word_of_int \<lfloor>v\<rfloor>" if "0 \<le> v" "v < 256" for v
  proof -
    from that have "0 \<le> \<lfloor>v\<rfloor>" "\<lfloor>v\<rfloor> \<le> 255"
      by (simp_all add: floor_le_iff)
    with that show ?thesis
      by (simp add: uint8_of_float64_def trunc_zero_def)
  qed
  with assms show ?thesis
    by (simp add: blendColors_def blendChannel_def Let_def)
qed

theorem blendColors_formula_witness:
  "blendColors (\<lambda>_. 0) (RGBA 10 20 30 255) (RGBA 255 255 255 255) (Finite (1 / 2))
     = RGBA 132 137 142 255
   \<and> uint8_of_float64 (\<lambda>_. 0) (Finite (265 / 2)) = 132"
proof -
  have w: "widen8 10 = 2570" "widen8 20 = 5140" "widen8 30 = 7710" "widen8 255 = 65535"
    by (simp_all add: widen8_def)
  have "RGBA_of (RGBA 10 20 30 255) = (2570, 5140, 7710, 65535)"
    and "RGBA_of (RGBA 255 255 255 255) = (65535, 65535, 65535, 65535)"
    and "(65535 :: 32 word) \<noteq> 0"
    by (simp_all add: w)
  from blendColors_formula [OF this, of "\<lambda>_. 0" "Finite (1 / 2)"]
  show ?thesis
    by (simp add: float_eval Let_def)
qed

text \<open>
  C1 as stated fails. \<open>Apply\<close> and \<open>Tile\<close> blend a canvas pixel (a \<open>color.RGBA\<close>) with an
  overlay pixel of any colour type. For the canvas pixel of red 1 (257 on the 16-bit
  scale) and an opaque overlay pixel of 16-bit red 255, at opacity 1/2, the formula on
  the 16-bit values gives 256, whose reduction to 8 bits is 1; the code reduces the
  channels first, to 1 and 0, blends them to 0.5 and gives red 0.
\<close>

theorem blendColors_not_16bit_formula:
  "blendColors (\<lambda>_. 0) (RGBA 1 0 0 255) (RGBA64 255 0 0 65535) (Finite (1 / 2))
     = RGBA 0 0 0 255
   \<and> spec_blend (\<lambda>_. 0) (RGBA 1 0 0 255) (RGBA64 255 0 0 65535) (Finite (1 / 2))
     = RGBA 1 0 0 255"
  by (simp add: blendColors_def blendChannel_def spec_blend_def spec_blendChannel_def
      widen8_def float_eval Let_def)

text \<open>
  C4. An overlay pixel whose alpha channel is zero leaves the base pixel as it is:
  \<open>blendColors\<close> returns the base colour itself, for every base pixel and opacity.
\<close>

theorem blendColors_transparent:
  "alpha16 overlay = 0 \<Longrightarrow> blendColors impl base overlay opacity = base"
  by (simp add: blendColors_def alpha16_def split: prod.splits)

theorem blendColors_transparent_witness:
  "alpha16 (NRGBA 255 0 0 0) = 0
   \<and> blendColors (\<lambda>_. 0) (RGBA64 4660 22136 39612 65535) (NRGBA 255 0 0 0) (Finite (1 / 2))
     = RGBA64 4660 22136 39612 65535"
proof -
  have h: "alpha16 (NRGBA 255 0 0 0) = 0"
    by (simp add: alpha16_def widen8_def)
  from h blendColors_transparent [OF h] show ?thesis
    by simp
qed

text \<open>
  C5. The alpha byte of the pixel that \<open>blendColors\<close> returns is the high byte of the
  base pixel's 16-bit alpha, whatever the overlay pixel and the opacity are: the
  overlay's alpha does not reach it.
\<close>

theorem blendColors_alpha:
  "alpha8 (blendColors impl base overlay opacity) = ucast (drop_bit 8 (alpha16 base))"
  by (cases "RGBA_of base"; cases "RGBA_of overlay")
     (simp add: blendColors_def alpha8_def alpha16_def Let_def rgbaModel_high_bytes high_byte_widen8)

theorem blendColors_alpha_witness:
  "alpha8 (blendColors (\<lambda>_. 0) (RGBA64 0 0 0 4660) (RGBA 255 255 255 255) (Finite 1)) = 18
   \<and> alpha8 (blendColors (\<lambda>_. 0) (RGBA64 0 0 0 4660) (RGBA 0 0 0 0) (Finite 1)) = 18"
  using blendColors_alpha [of "\<lambda>_. 0" "RGBA64 0 0 0 4660" "RGBA 255 255 255 255" "Finite 1"]
    blendColors_alpha [of "\<lambda>_. 0" "RGBA64 0 0 0 4660" "RGBA 0 0 0 0" "Finite 1"]
  by (simp add: alpha16_def)

section \<open>Placement\<close>

text \<open>
  C6. With \<open>bw, bh\<close> the sides of the base and \<open>ow, oh\<close> those of the overlay, and as
  long as no subtraction leaves the range of \<open>int\<close>, the offset is
  \<open>((bw - ow) / 2, (bh - oh) / 2)\<close> for Center, the division truncating towards zero,
  \<open>(px, py)\<close> for TopLeft, \<open>(bw - ow - px, py)\<close> for TopRight, \<open>(px, bh - oh - py)\<close> for
  BottomLeft and \<open>(bw - ow - px, bh - oh - py)\<close> for BottomRight. For a 200 x 100 base,
  a 40 x 20 overlay and padding (10, 10) these are (80, 40), (10, 10), (150, 10),
  (10, 70) and (150, 70).
\<close>

theorem placement_formulas:
  assumes "Dx srcBounds = bw" "Dy srcBounds = bh" "Dx wmBounds = ow" "Dy wmBounds = oh"
    and "is_int64 (bw - ow)" "is_int64 (bh - oh)"
    and "is_int64 (bw - ow - px)" "is_int64 (bh - oh - py)"
  shows "placement Center srcBounds wmBounds px py = ((bw - ow) sdiv 2, (bh - oh) sdiv 2)
       \<and> placement TopLeft srcBounds wmBounds px py = (px, py)
       \<and> placement TopRight srcBounds wmBounds px py = (bw - ow - px, py)
       \<and> placement BottomLeft srcBounds wmBounds px py = (px, bh - oh - py)
       \<and> placement BottomRight srcBounds wmBounds px py = (bw - ow - px, bh - oh - py)
       \<and> placement Center (rect 0 0 200 100) (rect 0 0 40 20) 10 10 = (80, 40)
       \<and> placement TopLeft (rect 0 0 200 100) (rect 0 0 40 20) 10 10 = (10, 10)
       \<and> placement TopRight (rect 0 0 200 100) (rect 0 0 40 20) 10 10 = (150, 10)
       \<and> placement BottomLeft (rect 0 0 200 100) (rect 0 0 40 20) 10 10 = (10, 70)
       \<and> placement BottomRight (rect 0 0 200 100) (rect 0 0 40 20) 10 10 = (150, 70)"
proof -
  have c: "Dx (rect 0 0 200 100) = 200" "Dy (rect 0 0 200 100) = 100"
          "Dx (rect 0 0 40 20) = 40" "Dy (rect 0 0 40 20) = 20"
    by (simp_all add: Dx_rect Dy_rect is_int64_def)
  have i: "is_int64 160" "is_int64 80" "is_int64 150" "is_int64 70"
    by (simp_all add: is_int64_def)
  show ?thesis
    using assms by (simp add: c i go_quo_2 go_sub_def wrap_id sdiv_int_numeral_numeral)
qed

text \<open>
  The witness: a 3 x 3 base under a 6 x 8 overlay, where the differences are negative
  and the division by two truncates towards zero (-3 / 2 = -1, not -2).
\<close>

theorem placement_formulas_witness:
  "placement Center (rect 0 0 3 3) (rect 0 0 6 8) 1 2 = (- 1, - 2)
   \<and> placement TopLeft (rect 0 0 3 3) (rect 0 0 6 8) 1 2 = (1, 2)
   \<and> placement TopRight (rect 0 0 3 3) (rect 0 0 6 8) 1 2 = (- 4, 2)
   \<and> placement BottomLeft (rect 0 0 3 3) (rect 0 0 6 8) 1 2 = (1, - 7)
   \<and> placement BottomRight (rect 0 0 3 3) (rect 0 0 6 8) 1 2 = (- 4, - 7)"
proof -
  have d: "Dx (rect 0 0 3 3) = 3" "Dy (rect 0 0 3 3) = 3"
          "Dx (rect 0 0 6 8) = 6" "Dy (rect 0 0 6 8) = 8"
    by (simp_all add: Dx_rect Dy_rect is_int64_def)
  have r: "is_int64 (3 - 6)" "is_int64 (3 - 8)" "is_int64 (3 - 6 - 1)" "is_int64 (3 - 8 - 2)"
    by (simp_all add: is_int64_def)
  from placement_formulas [OF d r] show ?thesis
    by (simp add: signed_divide_int_def)
qed

section \<open>Opacity in the two renderers\<close>

text \<open>
  C2 fails on the code for \<open>Tile\<close>: with opacity 0, a 1 x 1 base, an opaque 1 x 1
  overlay and spacing -1 the stride is zero and the call does not return, so it
  returns no image identical to the base. (The rest holds: \<open>Apply\<close> hands the
  compositor 0.5 for an opacity \<open>\<le> 0\<close> and 1 for an opacity \<open>> 1\<close>, \<open>Tile\<close> hands it
  the opacity as it is, and with opacity 0 \<open>Tile\<close> returns nothing but the canvas:
  \<open>opacity_in_Apply_and_Tile\<close>, \<open>Apply_result\<close>.)
\<close>

theorem Tile_opacity_0_hangs:
  "Tile impl (solid (rect 0 0 1 1) (RGBA 0 0 0 255)) (solid (rect 0 0 1 1) (RGBA 255 255 255 255))
      (Finite 0) (- 1) = None"
proof -
  have "go_add (Dx (rect 0 0 1 1)) (- 1) = 0"
    by (simp add: unit_square go_add_def wrap_def)
  then show ?thesis
    by (simp add: Tile_zero_stride [where buf = "\<lparr>Rect = rect 0 0 1 1, Pix = (\<lambda>_. (0, 0, 0, 0))\<rparr>"]
        solid_simps unit_square)
qed

section \<open>Termination of the tiling renderer\<close>

text \<open>
  C3 fails on the code. With a stride of zero the loop over the tile origins never
  advances: for a 1 x 1 base, \<open>Tile\<close> does not return for a 0 x 0 overlay with spacing
  0, nor for a 2 x 2 overlay with spacing -2, whatever the opacity.
\<close>

theorem Tile_zero_stride_hangs:
  "Tile impl (solid (rect 0 0 1 1) (RGBA 0 0 0 255)) (solid (rect 0 0 0 0) (RGBA 255 255 255 255))
      opacity 0 = None
   \<and> Tile impl (solid (rect 0 0 1 1) (RGBA 0 0 0 255)) (solid (rect 0 0 2 2) (RGBA 255 255 255 255))
      opacity (- 2) = None"
proof -
  have "go_add (Dx (rect 0 0 0 0)) 0 = 0" "go_add (Dx (rect 0 0 2 2)) (- 2) = 0"
    by (simp_all add: Dx_rect is_int64_def go_add_def wrap_def)
  then show ?thesis
    by (simp add: Tile_zero_stride [where buf = "\<lparr>Rect = rect 0 0 1 1, Pix = (\<lambda>_. (0, 0, 0, 0))\<rparr>"]
        solid_simps unit_square)
qed

text \<open>
  C9 fails on the code for \<open>Tile\<close>, by the same loop: with a transparent 1 x 1 overlay
  and spacing -1 the call does not return, so it returns no copy of the base. (For
  every transparent overlay \<open>Apply\<close> returns the canvas, and \<open>Tile\<close> returns nothing else
  when it returns: \<open>transparent_overlay_unchanged\<close>.)
\<close>

theorem Tile_transparent_hangs:
  "Tile impl (solid (rect 0 0 1 1) (RGBA 0 0 0 255)) (solid (rect 0 0 1 1) (RGBA 0 0 0 0))
      opacity (- 1) = None"
proof -
  have "go_add (Dx (rect 0 0 1 1)) (- 1) = 0"
    by (simp add: unit_square go_add_def wrap_def)
  then show ?thesis
    by (simp add: Tile_zero_stride [where buf = "\<lparr>Rect = rect 0 0 1 1, Pix = (\<lambda>_. (0, 0, 0, 0))\<rparr>"]
        solid_simps unit_square)
qed

section \<open>Clipping in the single-placement renderer\<close>




section \<open>A base image whose rectangle does not start at (0, 0)\<close>

text \<open>
  C8 fails on the code. \<open>Apply\<close> reads and writes the output at \<open>(x + wx, y + wy)\<close>, a
  coordinate relative to the base's origin, without adding the origin (as it does add
  the overlay's origin when it reads the overlay). For a black 2 x 2 base at
  (10, 10)-(12, 12) and a white 1 x 1 overlay at TopLeft with no padding, the
  destination (0, 0) is outside the output's rectangle: nothing is composited, the
  output is the canvas and its top-left pixel (10, 10) stays black. For the same base
  at (1, 1)-(3, 3) and padding (1, 1), the overlay lands on (1, 1), the base's top-left
  pixel, and not on (2, 2), the pixel at offset (1, 1).
\<close>

theorem Apply_ignores_origin:
  "Apply (\<lambda>_. 0) (solid (rect 10 10 12 12) (RGBA 0 0 0 255)) (solid (rect 0 0 1 1) (RGBA 255 255 255 255))
      \<lparr>Position = TopLeft, Opacity = Finite 1, PaddingX = 0, PaddingY = 0\<rparr>
    = canvas (solid (rect 10 10 12 12) (RGBA 0 0 0 255))
   \<and> (\<exists>out. Apply (\<lambda>_. 0) (solid (rect 10 10 12 12) (RGBA 0 0 0 255)) (solid (rect 0 0 1 1) (RGBA 255 255 255 255))
          \<lparr>Position = TopLeft, Opacity = Finite 1, PaddingX = 0, PaddingY = 0\<rparr> = Returns out
        \<and> Pix out (10, 10) = (0, 0, 0, 255))
   \<and> (\<exists>out. Apply (\<lambda>_. 0) (solid (rect 1 1 3 3) (RGBA 0 0 0 255)) (solid (rect 0 0 1 1) (RGBA 255 255 255 255))
          \<lparr>Position = TopLeft, Opacity = Finite 1, PaddingX = 1, PaddingY = 1\<rparr> = Returns out
        \<and> Pix out (1, 1) = (255, 255, 255, 255) \<and> Pix out (2, 2) = (0, 0, 0, 255))"
proof -
  have a: "Apply (\<lambda>_. 0) (solid (rect 10 10 12 12) (RGBA 0 0 0 255)) (solid (rect 0 0 1 1) (RGBA 255 255 255 255))
      \<lparr>Position = TopLeft, Opacity = Finite 1, PaddingX = 0, PaddingY = 0\<rparr>
    = Returns (Draw \<lparr>Rect = rect 10 10 12 12, Pix = (\<lambda>_. (0, 0, 0, 0))\<rparr> (rect 10 10 12 12)
        (solid (rect 10 10 12 12) (RGBA 0 0 0 255)) (MinPt (rect 10 10 12 12)))"
    by (simp add: Apply_def solid_simps rect_10 unit_square Let_def Apply_pixel_def go_add_small
        Set_def Draw_def In_rect)
  have b: "canvas (solid (rect 10 10 12 12) (RGBA 0 0 0 255))
    = Returns (Draw \<lparr>Rect = rect 10 10 12 12, Pix = (\<lambda>_. (0, 0, 0, 0))\<rparr> (rect 10 10 12 12)
        (solid (rect 10 10 12 12) (RGBA 0 0 0 255)) (MinPt (rect 10 10 12 12)))"
    by (simp add: canvas_def solid_simps rect_10)
  have c: "Pix (Draw \<lparr>Rect = rect 10 10 12 12, Pix = (\<lambda>_. (0, 0, 0, 0))\<rparr> (rect 10 10 12 12)
        (solid (rect 10 10 12 12) (RGBA 0 0 0 255)) (MinPt (rect 10 10 12 12))) (10, 10) = (0, 0, 0, 255)"
    by (simp add: Draw_def In_rect MinPt_rect solid_simps rgbaModel_def)
  have d: "\<exists>out. Apply (\<lambda>_. 0) (solid (rect 1 1 3 3) (RGBA 0 0 0 255)) (solid (rect 0 0 1 1) (RGBA 255 255 255 255))
          \<lparr>Position = TopLeft, Opacity = Finite 1, PaddingX = 1, PaddingY = 1\<rparr> = Returns out
        \<and> Pix out (1, 1) = (255, 255, 255, 255) \<and> Pix out (2, 2) = (0, 0, 0, 255)"
    by (simp add: Apply_def solid_simps rect_1 unit_square Let_def Apply_pixel_def go_add_small
        Set_def Draw_def In_rect MinPt_rect RGBAAt_def rgbaModel_def normOpacity_1 blend_black_white)
  from a b c d show ?thesis by simp
qed

section \<open>The output buffer\<close>




end
